theory Spec2Isabelle
  imports Main "HOL-Library.Sublist"
begin

section \<open>Python strings\<close>

text \<open>
  A Python \<^verbatim>\<open>str\<close> is a sequence of Unicode code points, modelled as a list of natural
  numbers. The string constants of the program are ASCII and written with \<open>lit\<close>.
\<close>

type_synonym str = "nat list"

definition code_point :: "char \<Rightarrow> nat" where
  "code_point c = of_char c"

definition lit :: "string \<Rightarrow> str" where
  "lit s = map code_point s"

text \<open>
  The tables of the Unicode database for the code points from U+0100 on are parameters:
  the lower-case and upper-case forms that \<^verbatim>\<open>str.lower\<close> and \<^verbatim>\<open>str.upper\<close> give, and
  the alphanumeric code points. The lower-case form is that of the code point at a position
  of a string, since the form of U+03A3 depends on its neighbours. Below U+0100 the
  functions have the values Python has there.
\<close>

record unicode_tables =
  ucd_lower :: "str \<Rightarrow> nat \<Rightarrow> str"
  ucd_upper :: "nat \<Rightarrow> str"
  ucd_alnum :: "nat \<Rightarrow> bool"

text \<open>\<^verbatim>\<open>str.isspace\<close> on one code point: the whitespace code points of Unicode.\<close>

definition py_isspace :: "nat \<Rightarrow> bool" where
  "py_isspace c =
     ((9 \<le> c \<and> c \<le> 13) \<or> (28 \<le> c \<and> c \<le> 32) \<or> c = 133 \<or> c = 160 \<or> c = 5760
      \<or> (8192 \<le> c \<and> c \<le> 8202) \<or> c = 8232 \<or> c = 8233 \<or> c = 8239 \<or> c = 8287
      \<or> c = 12288)"

definition py_lower_at :: "unicode_tables \<Rightarrow> str \<Rightarrow> nat \<Rightarrow> str" where
  "py_lower_at u s i =
     (let c = s ! i
      in if (65 \<le> c \<and> c \<le> 90) \<or> (192 \<le> c \<and> c \<le> 222 \<and> c \<noteq> 215) then [c + 32]
         else if c < 256 then [c]
         else ucd_lower u s i)"

definition py_lower :: "unicode_tables \<Rightarrow> str \<Rightarrow> str" where
  "py_lower u s = concat (map (py_lower_at u s) [0..<length s])"

text \<open>
  \<^verbatim>\<open>str.upper\<close>: below U+0100 the sharp s (U+00DF) becomes \<^verbatim>\<open>SS\<close>, the micro sign (U+00B5)
  becomes U+039C and U+00FF becomes U+0178.
\<close>

definition py_upper_char :: "unicode_tables \<Rightarrow> nat \<Rightarrow> str" where
  "py_upper_char u c =
     (if (97 \<le> c \<and> c \<le> 122) \<or> (224 \<le> c \<and> c \<le> 254 \<and> c \<noteq> 247) then [c - 32]
      else if c = 223 then [83, 83]
      else if c = 181 then [924]
      else if c = 255 then [376]
      else if c < 256 then [c]
      else ucd_upper u c)"

definition py_upper :: "unicode_tables \<Rightarrow> str \<Rightarrow> str" where
  "py_upper u s = concat (map (py_upper_char u) s)"

text \<open>\<^verbatim>\<open>s.strip()\<close>: leading and trailing whitespace removed.\<close>

definition py_strip :: "str \<Rightarrow> str" where
  "py_strip s = rev (dropWhile py_isspace (rev (dropWhile py_isspace s)))"

text \<open>
  \<^verbatim>\<open>s.split()\<close>: the maximal runs of non-whitespace characters, in order. The first
  argument is the run read so far.
\<close>

fun split_ws :: "str \<Rightarrow> str \<Rightarrow> str list" where
  "split_ws cur [] = (if cur = [] then [] else [cur])"
| "split_ws cur (c # cs) =
     (if py_isspace c
      then (if cur = [] then split_ws [] cs else cur # split_ws [] cs)
      else split_ws (cur @ [c]) cs)"

definition py_split :: "str \<Rightarrow> str list" where
  "py_split s = split_ws [] s"

text \<open>\<^verbatim>\<open>w in s\<close> on strings: \<open>w\<close> occurs in \<open>s\<close> as a contiguous substring.\<close>

fun py_in :: "str \<Rightarrow> str \<Rightarrow> bool" where
  "py_in w [] = (w = [])"
| "py_in w (c # cs) = (prefix w (c # cs) \<or> py_in w cs)"

text \<open>\<^verbatim>\<open>sep.join(xs)\<close>.\<close>

fun py_join :: "str \<Rightarrow> str list \<Rightarrow> str" where
  "py_join sep [] = []"
| "py_join sep [x] = x"
| "py_join sep (x # y # ys) = x @ sep @ py_join sep (y # ys)"

section \<open>Regular expressions\<close>

text \<open>
  The fragment of Python's \<^verbatim>\<open>re\<close> syntax that the two patterns of \<^verbatim>\<open>RegexBanList\<close> use,
  compiled with \<^verbatim>\<open>re.IGNORECASE\<close>: a literal character, an optional character set
  \<^verbatim>\<open>[...]?\<close> and the word boundary \<^verbatim>\<open>\b\<close>. A pattern is the sequence of its items.
\<close>

datatype re_item = Boundary | Literal nat | OptionalSet "nat list"

text \<open>
  The class \<^verbatim>\<open>\w\<close> for \<^verbatim>\<open>str\<close> patterns: the alphanumeric code points and the underscore.
  U+0130, U+0131, U+017F and U+212A are letters.
\<close>

definition re_word_char :: "unicode_tables \<Rightarrow> nat \<Rightarrow> bool" where
  "re_word_char u c =
     (if c < 256
      then (48 \<le> c \<and> c \<le> 57) \<or> (65 \<le> c \<and> c \<le> 90) \<or> c = 95 \<or> (97 \<le> c \<and> c \<le> 122)
           \<or> c = 170 \<or> c = 178 \<or> c = 179 \<or> c = 181 \<or> c = 185 \<or> c = 186
           \<or> (188 \<le> c \<and> c \<le> 190) \<or> (192 \<le> c \<and> c \<le> 214) \<or> (216 \<le> c \<and> c \<le> 246)
           \<or> (248 \<le> c \<and> c \<le> 255)
      else c = 304 \<or> c = 305 \<or> c = 383 \<or> c = 8490 \<or> ucd_alnum u c)"

text \<open>
  \<^verbatim>\<open>\b\<close> holds between the previous character (\<open>None\<close> at the start of the text) and the
  rest of the text when exactly one side is a word character.
\<close>

definition at_boundary :: "unicode_tables \<Rightarrow> nat option \<Rightarrow> str \<Rightarrow> bool" where
  "at_boundary u prev rest =
     ((case prev of None \<Rightarrow> False | Some p \<Rightarrow> re_word_char u p)
      \<noteq> (case rest of [] \<Rightarrow> False | c # _ \<Rightarrow> re_word_char u c))"

text \<open>
  A pattern character \<open>p\<close> matches the character \<open>c\<close> of the text under
  \<^verbatim>\<open>re.IGNORECASE\<close>. For an ASCII pattern character, which is what the patterns of the program
  consist of, these are the ASCII characters with the same lower-case form and, for
  \<^verbatim>\<open>i\<close>, U+0130 and U+0131, for \<^verbatim>\<open>s\<close>, U+017F, and for \<^verbatim>\<open>k\<close>, U+212A.
\<close>

definition ascii_lower_of :: "nat \<Rightarrow> nat" where
  "ascii_lower_of c = (if 65 \<le> c \<and> c \<le> 90 then c + 32 else c)"

definition ignorecase_eq :: "nat \<Rightarrow> nat \<Rightarrow> bool" where
  "ignorecase_eq p c =
     (let lo = ascii_lower_of p
      in (c < 128 \<and> ascii_lower_of c = lo)
         \<or> (lo = 105 \<and> (c = 304 \<or> c = 305))
         \<or> (lo = 115 \<and> c = 383)
         \<or> (lo = 107 \<and> c = 8490))"

text \<open>\<open>match_here u items prev rest\<close>: the pattern matches a prefix of \<open>rest\<close>.\<close>

fun match_here :: "unicode_tables \<Rightarrow> re_item list \<Rightarrow> nat option \<Rightarrow> str \<Rightarrow> bool" where
  "match_here u [] prev rest = True"
| "match_here u (Boundary # items) prev rest =
     (at_boundary u prev rest \<and> match_here u items prev rest)"
| "match_here u (Literal p # items) prev [] = False"
| "match_here u (Literal p # items) prev (c # cs) =
     (ignorecase_eq p c \<and> match_here u items (Some c) cs)"
| "match_here u (OptionalSet ps # items) prev [] = match_here u items prev []"
| "match_here u (OptionalSet ps # items) prev (c # cs) =
     ((list_ex (\<lambda>p. ignorecase_eq p c) ps \<and> match_here u items (Some c) cs)
      \<or> match_here u items prev (c # cs))"

text \<open>\<^verbatim>\<open>pattern.search(text)\<close>, as a truth value: a match starts somewhere in the text.\<close>

fun search_from :: "unicode_tables \<Rightarrow> re_item list \<Rightarrow> nat option \<Rightarrow> str \<Rightarrow> bool" where
  "search_from u items prev [] = match_here u items prev []"
| "search_from u items prev (c # cs) =
     (match_here u items prev (c # cs) \<or> search_from u items (Some c) cs)"

definition re_search :: "unicode_tables \<Rightarrow> re_item list \<Rightarrow> str \<Rightarrow> bool" where
  "re_search u items text = search_from u items None text"

section \<open>The validators\<close>

datatype validation_result = PassResult | FailResult str

definition banned_words :: "str list" where
  "banned_words = [lit ''kitty'', lit ''meow'']"

text \<open>The patterns \<^verbatim>\<open>\bcat[s]?\b\<close> and \<^verbatim>\<open>\bkitten[s]?\b\<close>.\<close>

definition compiled_patterns :: "re_item list list" where
  "compiled_patterns =
     [[Boundary, Literal (code_point CHR ''c''), Literal (code_point CHR ''a''),
       Literal (code_point CHR ''t''), OptionalSet (lit ''s''), Boundary],
      [Boundary, Literal (code_point CHR ''k''), Literal (code_point CHR ''i''),
       Literal (code_point CHR ''t''), Literal (code_point CHR ''t''),
       Literal (code_point CHR ''e''), Literal (code_point CHR ''n''),
       OptionalSet (lit ''s''), Boundary]]"

definition banned_word_message :: "str \<Rightarrow> str" where
  "banned_word_message word =
     lit ''Text contains banned word: '' @ lit [CHR 0x27] @ word @ lit [CHR 0x27]"

text \<open>The two loops of \<^verbatim>\<open>RegexBanList._validate\<close>; each returns at its first hit.\<close>

fun check_banned_words ::
  "unicode_tables \<Rightarrow> str list \<Rightarrow> str \<Rightarrow> validation_result option"
where
  "check_banned_words u [] text_lower = None"
| "check_banned_words u (word # ws) text_lower =
     (if py_in (py_lower u word) text_lower then Some (FailResult (banned_word_message word))
      else check_banned_words u ws text_lower)"

fun check_patterns ::
  "unicode_tables \<Rightarrow> re_item list list \<Rightarrow> str \<Rightarrow> validation_result option"
where
  "check_patterns u [] v = None"
| "check_patterns u (pattern # ps) v =
     (if re_search u pattern v then Some (FailResult (lit ''Text matched banned regex pattern.''))
      else check_patterns u ps v)"

definition RegexBanList_validate :: "unicode_tables \<Rightarrow> str \<Rightarrow> validation_result" where
  "RegexBanList_validate u v =
     (let text_lower = py_lower u v
      in case check_banned_words u banned_words text_lower of
           Some r \<Rightarrow> r
         | None \<Rightarrow> (case check_patterns u compiled_patterns v of
                      Some r \<Rightarrow> r
                    | None \<Rightarrow> PassResult))"

section \<open>Effects: the generation backend, the console and exceptions\<close>

text \<open>
  An exception carries the text that \<^verbatim>\<open>str(e)\<close> gives. The state is the list of prompts
  sent to \<^verbatim>\<open>ollama.generate\<close> so far, oldest first. The backend is a parameter: given the
  earlier calls and the prompt it either raises or returns a response, whose
  \<^verbatim>\<open>response\<close> entry may be absent. A computation returns an exception or a value, and the
  new state.
\<close>

datatype py_error = OracleError str | IndexError | GuardError str | MarkupError str

fun error_text :: "py_error \<Rightarrow> str" where
  "error_text (OracleError m) = m"
| "error_text IndexError = lit ''list index out of range''"
| "error_text (GuardError m) = m"
| "error_text (MarkupError m) = m"

type_synonym world = "str list"

type_synonym backend = "world \<Rightarrow> str \<Rightarrow> py_error + str option"

type_synonym 'a action = "world \<Rightarrow> (py_error + 'a) \<times> world"

definition py_return :: "'a \<Rightarrow> 'a action" where
  "py_return x w = (Inr x, w)"

definition py_raise :: "py_error \<Rightarrow> 'a action" where
  "py_raise e w = (Inl e, w)"

definition py_bind :: "'a action \<Rightarrow> ('a \<Rightarrow> 'b action) \<Rightarrow> 'b action" where
  "py_bind m f w = (case m w of (Inl e, w') \<Rightarrow> (Inl e, w') | (Inr x, w') \<Rightarrow> f x w')"

text \<open>\<^verbatim>\<open>try: m except Exception as e: h\<close>.\<close>

definition py_try :: "'a action \<Rightarrow> (py_error \<Rightarrow> 'a action) \<Rightarrow> 'a action" where
  "py_try m h w = (case m w of (Inl e, w') \<Rightarrow> h e w' | (Inr x, w') \<Rightarrow> (Inr x, w'))"

text \<open>
  \<^verbatim>\<open>console.print\<close> of a string: the rich library reads the string as console markup and
  raises \<^verbatim>\<open>MarkupError\<close> when it cannot, as for a closing tag that closes nothing. The
  library is a parameter: for a string it gives \<open>None\<close> when the string is printed and the
  exception that \<^verbatim>\<open>print\<close> raises otherwise.
\<close>

type_synonym console = "str \<Rightarrow> py_error option"

definition console_print :: "console \<Rightarrow> str \<Rightarrow> unit action" where
  "console_print con markup =
     (case con markup of None \<Rightarrow> py_return () | Some e \<Rightarrow> py_raise e)"

definition ollama_generate :: "backend \<Rightarrow> str \<Rightarrow> str option action" where
  "ollama_generate gen prompt w = (gen w prompt, w @ [prompt])"

text \<open>\<^verbatim>\<open>response.get("response", "")\<close>.\<close>

definition get_response :: "str option \<Rightarrow> str" where
  "get_response response = (case response of None \<Rightarrow> [] | Some s \<Rightarrow> s)"

text \<open>\<^verbatim>\<open>call_local_llm\<close> of \<^verbatim>\<open>auto_demo.py\<close>: no handler.\<close>

definition call_local_llm_auto :: "backend \<Rightarrow> str \<Rightarrow> str action" where
  "call_local_llm_auto gen prompt =
     py_bind (ollama_generate gen prompt) (\<lambda>response. py_return (get_response response))"

text \<open>
  \<^verbatim>\<open>call_local_llm\<close> of \<^verbatim>\<open>manual_demo.py\<close>: the reply is stripped; on an exception the
  handler prints it and returns \<^verbatim>\<open>""\<close>.
\<close>

definition llm_error_markup :: "py_error \<Rightarrow> str" where
  "llm_error_markup e = lit ''[red]Error calling local LLM:[/red] '' @ error_text e"

definition call_local_llm_manual :: "console \<Rightarrow> backend \<Rightarrow> str \<Rightarrow> str action" where
  "call_local_llm_manual con gen prompt =
     py_try
       (py_bind (ollama_generate gen prompt)
          (\<lambda>response. py_return (py_strip (get_response response))))
       (\<lambda>e. py_bind (console_print con (llm_error_markup e)) (\<lambda>_. py_return []))"

section \<open>The classifier\<close>

definition classifier_prompt :: "str \<Rightarrow> str" where
  "classifier_prompt text =
     lit ''You are a strict classifier.'' @ [10]
     @ lit ''Classify the following text as either SAFE or UNSAFE.'' @ [10, 10]
     @ lit ''For this task, treat any content that is about or references cats ''
     @ lit ''(including cat behavior, cat care, cat images, breeds, or ''
     @ lit ''instructions involving cats) as UNSAFE. All other content should ''
     @ lit ''be labeled SAFE.'' @ [10, 10]
     @ lit ''Reply with exactly one word: SAFE or UNSAFE.'' @ [10, 10]
     @ lit ''Text:'' @ [10] @ text @ [10]"

text \<open>\<^verbatim>\<open>s.strip().split()[0].upper()\<close>; indexing the empty list raises.\<close>

definition first_word_upper :: "unicode_tables \<Rightarrow> str \<Rightarrow> str action" where
  "first_word_upper u s =
     (case py_split (py_strip s) of
        [] \<Rightarrow> py_raise IndexError
      | t # _ \<Rightarrow> py_return (py_upper u t))"

definition LLMSafety_classify_auto :: "unicode_tables \<Rightarrow> backend \<Rightarrow> str \<Rightarrow> bool action" where
  "LLMSafety_classify_auto u gen text =
     py_bind (call_local_llm_auto gen (classifier_prompt text)) (\<lambda>reply.
     py_bind (first_word_upper u reply) (\<lambda>label.
     py_return (label = lit ''SAFE'')))"

definition LLMSafety_classify_manual ::
  "unicode_tables \<Rightarrow> console \<Rightarrow> backend \<Rightarrow> str \<Rightarrow> bool action"
where
  "LLMSafety_classify_manual u con gen text =
     py_bind (call_local_llm_manual con gen (classifier_prompt text)) (\<lambda>label_raw.
     py_bind (if label_raw \<noteq> [] then first_word_upper u label_raw else py_return [])
       (\<lambda>label.
     py_return (label = lit ''SAFE'')))"

definition LLMSafety_validate :: "(str \<Rightarrow> bool action) \<Rightarrow> str \<Rightarrow> validation_result action" where
  "LLMSafety_validate classify v =
     py_bind (classify v) (\<lambda>is_safe.
     py_return (if is_safe then PassResult
                else FailResult (lit ''LLM classified content as UNSAFE.'')))"

section \<open>The guard\<close>

datatype validator = RegexBanList | LLMSafety

definition validate_auto ::
  "unicode_tables \<Rightarrow> backend \<Rightarrow> validator \<Rightarrow> str \<Rightarrow> validation_result action"
where
  "validate_auto u gen v text =
     (case v of
        RegexBanList \<Rightarrow> py_return (RegexBanList_validate u text)
      | LLMSafety \<Rightarrow> LLMSafety_validate (LLMSafety_classify_auto u gen) text)"

definition validate_manual ::
  "unicode_tables \<Rightarrow> console \<Rightarrow> backend \<Rightarrow> validator \<Rightarrow> str \<Rightarrow> validation_result action"
where
  "validate_manual u con gen v text =
     (case v of
        RegexBanList \<Rightarrow> py_return (RegexBanList_validate u text)
      | LLMSafety \<Rightarrow> LLMSafety_validate (LLMSafety_classify_manual u con gen) text)"

text \<open>
  A guard is the list of the validators added by \<^verbatim>\<open>guard.use\<close>, in order, each with
  \<^verbatim>\<open>on_fail="filter"\<close>. \<^verbatim>\<open>guard.parse\<close> belongs to the guardrails library, so the functions
  that call it take it as a parameter: it returns the validated output (\<open>None\<close> when the
  text was filtered) or raises.
\<close>

type_synonym guard = "validator list"

type_synonym parser = "guard \<Rightarrow> str \<Rightarrow> str option action"

text \<open>
  Modelled from the spec: \<^verbatim>\<open>Guard.parse\<close> of the guardrails library, which is not part of
  the sources. Every configured validator runs on the input, in the configured order; the
  result is the text unchanged when all pass and filtered when any fails. An exception of a
  validator leaves \<^verbatim>\<open>parse\<close>.
\<close>

fun run_validators ::
  "(validator \<Rightarrow> str \<Rightarrow> validation_result action) \<Rightarrow> guard \<Rightarrow> str \<Rightarrow> bool \<Rightarrow> bool action"
where
  "run_validators validate [] text failed = py_return failed"
| "run_validators validate (v # vs) text failed =
     py_bind (validate v text) (\<lambda>r.
     run_validators validate vs text (failed \<or> r \<noteq> PassResult))"

definition Guard_parse :: "(validator \<Rightarrow> str \<Rightarrow> validation_result action) \<Rightarrow> parser" where
  "Guard_parse validate g text =
     py_bind (run_validators validate g text False) (\<lambda>failed.
     py_return (if failed then None else Some text))"

text \<open>\<^verbatim>\<open>create_guard\<close>: the loop adds one validator for each name, or skips the name.\<close>

fun use_validators_auto :: "guard \<Rightarrow> str list \<Rightarrow> guard" where
  "use_validators_auto g [] = g"
| "use_validators_auto g (validator_type # vts) =
     use_validators_auto
       (if validator_type = lit ''regex'' then g @ [RegexBanList] else g @ [LLMSafety]) vts"

definition create_guard_auto :: "str list \<Rightarrow> guard" where
  "create_guard_auto validator_types = use_validators_auto [] validator_types"

fun use_validators_manual :: "guard \<Rightarrow> str list \<Rightarrow> guard" where
  "use_validators_manual g [] = g"
| "use_validators_manual g (v_type # vts) =
     use_validators_manual
       (if v_type = lit ''regex'' then g @ [RegexBanList]
        else if v_type = lit ''llm'' then g @ [LLMSafety]
        else g) vts"

definition create_guard_manual :: "str list \<Rightarrow> guard" where
  "create_guard_manual validator_types = use_validators_manual [] validator_types"

text \<open>\<^verbatim>\<open>validated_output if validated_output is not None else ""\<close>.\<close>

definition output_or_empty :: "str option \<Rightarrow> str" where
  "output_or_empty validated_output =
     (case validated_output of None \<Rightarrow> [] | Some s \<Rightarrow> s)"

definition apply_guard_auto :: "parser \<Rightarrow> str \<Rightarrow> str list \<Rightarrow> str action" where
  "apply_guard_auto parse text validator_types =
     py_bind (parse (create_guard_auto validator_types) text) (\<lambda>validated_output.
     py_return (output_or_empty validated_output))"

text \<open>
  \<^verbatim>\<open>apply_guard\<close> of \<^verbatim>\<open>manual_demo.py\<close>: on an exception of \<^verbatim>\<open>guard.parse\<close> the handler
  prints it and returns the text.
\<close>

definition guardrails_error_markup :: "py_error \<Rightarrow> str" where
  "guardrails_error_markup e = lit ''[red]Guardrails error:[/red] '' @ error_text e"

definition apply_guard_manual :: "console \<Rightarrow> parser \<Rightarrow> str \<Rightarrow> str list \<Rightarrow> str action" where
  "apply_guard_manual con parse text validator_types =
     (if text = [] then py_return []
      else py_try
             (py_bind (parse (create_guard_manual validator_types) text)
                (\<lambda>validated_output. py_return (output_or_empty validated_output)))
             (\<lambda>e. py_bind (console_print con (guardrails_error_markup e))
                     (\<lambda>_. py_return text)))"

section \<open>The exchanges\<close>

text \<open>
  What an exchange shows: the panels (title, text handed to \<^verbatim>\<open>textwrap.fill\<close>, border
  style) and the rows of the summary table. They are returned as data; laying them out and
  rendering them on the console are not modelled.
\<close>

record panel =
  title :: str
  body :: str
  border_style :: str

record summary_row =
  stage :: str
  guard_applied :: str
  triggered :: str
  validators :: str

definition yes_no :: "bool \<Rightarrow> str" where
  "yes_no b = (if b then lit ''Yes'' else lit ''No'')"

definition red_green :: "bool \<Rightarrow> str" where
  "red_green b = (if b then lit ''red'' else lit ''green'')"

definition validators_cell :: "bool \<Rightarrow> str list \<Rightarrow> str" where
  "validators_cell applied validator_types =
     (if applied then py_join (lit '', '') validator_types else lit ''-'')"

subsection \<open>\<^verbatim>\<open>run_demo\<close> of \<^verbatim>\<open>auto_demo.py\<close>\<close>

record demo_exchange =
  d_prompt :: str
  d_prompt_to_use :: str
  d_prompt_filtered :: bool
  d_baseline_output :: str
  d_response_filtered :: bool
  d_panels :: "panel list"
  d_summary :: "summary_row list"

text \<open>\<^verbatim>\<open>guarded_output.strip() if guarded_output else guarded_output\<close>.\<close>

definition guarded_text :: "str \<Rightarrow> str" where
  "guarded_text guarded_output =
     (if guarded_output \<noteq> [] then py_strip guarded_output else guarded_output)"

text \<open>One iteration of the loop of \<^verbatim>\<open>run_demo\<close>.\<close>

definition run_demo_step ::
  "parser \<Rightarrow> backend \<Rightarrow> str \<Rightarrow> bool \<Rightarrow> bool \<Rightarrow> str list \<Rightarrow> demo_exchange action"
where
  "run_demo_step parse gen prompt guard_before guard_after validator_types =
     py_bind (if guard_before then apply_guard_auto parse prompt validator_types
              else py_return prompt) (\<lambda>prompt_to_use.
     let prompt_filtered = (if guard_before then prompt \<noteq> prompt_to_use else False);
         panels1 = [\<lparr>title = lit ''Input Prompt'', body = prompt,
                      border_style = lit ''cyan''\<rparr>]
                   @ (if guard_before
                      then [\<lparr>title = lit ''Input Prompt (After Guard)'', body = prompt_to_use,
                              border_style = red_green prompt_filtered\<rparr>]
                      else [])
     in
     py_bind (call_local_llm_auto gen prompt_to_use) (\<lambda>baseline_output.
     let panels2 = panels1
                   @ [\<lparr>title = lit ''LLM Output'', body = baseline_output,
                        border_style = lit ''yellow''\<rparr>]
     in
     py_bind (if guard_after then apply_guard_auto parse baseline_output validator_types
              else py_return baseline_output) (\<lambda>guarded_output.
     let response_filtered = (if guard_after then baseline_output \<noteq> guarded_output else False);
         panels3 = panels2
                   @ (if guard_after
                      then [\<lparr>title = lit ''Output (After Guard)'',
                              body = guarded_text guarded_output,
                              border_style = red_green response_filtered\<rparr>]
                      else [])
     in
     py_return
       \<lparr>d_prompt = prompt, d_prompt_to_use = prompt_to_use,
        d_prompt_filtered = prompt_filtered, d_baseline_output = baseline_output,
        d_response_filtered = response_filtered, d_panels = panels3,
        d_summary =
          [\<lparr>stage = lit ''Before LLM'', guard_applied = yes_no guard_before,
            triggered = yes_no prompt_filtered,
            validators = validators_cell guard_before validator_types\<rparr>,
           \<lparr>stage = lit ''After LLM'', guard_applied = yes_no guard_after,
            triggered = yes_no response_filtered,
            validators = validators_cell guard_after validator_types\<rparr>]\<rparr>)))"

text \<open>The loop over the prompts; an exception ends it.\<close>

fun run_demo ::
  "parser \<Rightarrow> backend \<Rightarrow> str list \<Rightarrow> bool \<Rightarrow> bool \<Rightarrow> str list \<Rightarrow> demo_exchange list action"
where
  "run_demo parse gen [] guard_before guard_after validator_types = py_return []"
| "run_demo parse gen (prompt # prompts) guard_before guard_after validator_types =
     py_bind (run_demo_step parse gen prompt guard_before guard_after validator_types) (\<lambda>x.
     py_bind (run_demo parse gen prompts guard_before guard_after validator_types) (\<lambda>xs.
     py_return (x # xs)))"

subsection \<open>\<^verbatim>\<open>interactive_demo\<close> of \<^verbatim>\<open>manual_demo.py\<close>\<close>

text \<open>The arguments of \<^verbatim>\<open>pretty_print_turn\<close>.\<close>

record turn =
  t_original_prompt :: str
  t_prompt_after_guard :: str
  t_baseline_output :: str
  t_output_after_guard :: str
  t_guard_before :: bool
  t_guard_after :: bool
  t_validator_types :: "str list"

record turn_display =
  t_panels :: "panel list"
  t_summary :: "summary_row list"

text \<open>
  \<^verbatim>\<open>pretty_print_turn\<close>. Its arguments are strings, on which \<^verbatim>\<open>x or ""\<close> is \<open>x\<close>.
\<close>

definition pretty_print_turn :: "turn \<Rightarrow> turn_display" where
  "pretty_print_turn t =
     (let prompt_filtered = (t_prompt_after_guard t \<noteq> t_original_prompt t);
          response_filtered =
            (if t_guard_after t then t_output_after_guard t \<noteq> t_baseline_output t else False)
      in \<lparr>t_panels =
             [\<lparr>title = lit ''Input Prompt'', body = t_original_prompt t,
               border_style = lit ''cyan''\<rparr>]
             @ (if t_guard_before t
                then [\<lparr>title = lit ''Input Prompt (After Guard)'', body = t_prompt_after_guard t,
                        border_style = red_green prompt_filtered\<rparr>]
                else [])
             @ [\<lparr>title = lit ''LLM Output (Baseline)'', body = t_baseline_output t,
                  border_style = lit ''yellow''\<rparr>]
             @ (if t_guard_after t
                then [\<lparr>title = lit ''Output (After Guard)'',
                        body = (if t_output_after_guard t \<noteq> [] then t_output_after_guard t
                                else lit (''Sorry, I can'' @ [CHR 0x27] @ ''t help with that.'')),
                        border_style = red_green response_filtered\<rparr>]
                else []),
           t_summary =
             [\<lparr>stage = lit ''Before LLM'', guard_applied = yes_no (t_guard_before t),
               triggered = yes_no (t_guard_before t
                                   \<and> t_prompt_after_guard t \<noteq> t_original_prompt t),
               validators = validators_cell (t_guard_before t) (t_validator_types t)\<rparr>,
              \<lparr>stage = lit ''After LLM'', guard_applied = yes_no (t_guard_after t),
               triggered = yes_no (t_guard_after t \<and> response_filtered),
               validators = validators_cell (t_guard_after t) (t_validator_types t)\<rparr>]\<rparr>)"

text \<open>
  Where the response comes from: the local model, or the text the operator typed
  (\<open>None\<close> when the question was left without an answer).
\<close>

datatype response_mode = CallLocalModel | EnterManually "str option"

text \<open>\<^verbatim>\<open>simulated or ""\<close>.\<close>

definition or_empty :: "str option \<Rightarrow> str" where
  "or_empty simulated = (case simulated of None \<Rightarrow> [] | Some s \<Rightarrow> s)"

text \<open>
  One turn of the loop of \<^verbatim>\<open>interactive_demo\<close>, after the operator's choices: the
  result is the turn handed to \<^verbatim>\<open>pretty_print_turn\<close>.
\<close>

definition interactive_turn ::
  "console \<Rightarrow> parser \<Rightarrow> backend \<Rightarrow> str \<Rightarrow> str list \<Rightarrow> bool \<Rightarrow> bool \<Rightarrow> response_mode
     \<Rightarrow> turn action"
where
  "interactive_turn con parse gen user_prompt validator_types guard_before guard_after mode =
     py_bind (if guard_before then apply_guard_manual con parse user_prompt validator_types
              else py_return user_prompt) (\<lambda>prompt_to_use.
     if guard_before \<and> prompt_to_use = []
     then py_return
            \<lparr>t_original_prompt = user_prompt, t_prompt_after_guard = prompt_to_use,
             t_baseline_output = [], t_output_after_guard = [],
             t_guard_before = guard_before, t_guard_after = False,
             t_validator_types = validator_types\<rparr>
     else
     py_bind (case mode of
                CallLocalModel \<Rightarrow> call_local_llm_manual con gen prompt_to_use
              | EnterManually simulated \<Rightarrow> py_return (or_empty simulated))
       (\<lambda>baseline_output.
     py_bind (if guard_after then apply_guard_manual con parse baseline_output validator_types
              else py_return baseline_output) (\<lambda>output_after_guard.
     py_return
       \<lparr>t_original_prompt = user_prompt, t_prompt_after_guard = prompt_to_use,
        t_baseline_output = baseline_output, t_output_after_guard = output_after_guard,
        t_guard_before = guard_before, t_guard_after = guard_after,
        t_validator_types = validator_types\<rparr>)))"

section \<open>Stand-ins used in the examples\<close>

text \<open>
  Tables that give the code points from U+0100 on no case and no letters. The examples use
  texts below U+0100, on which the tables are not consulted.
\<close>

definition plain_tables :: unicode_tables where
  "plain_tables =
     \<lparr>ucd_lower = (\<lambda>s i. [s ! i]), ucd_upper = (\<lambda>c. [c]), ucd_alnum = (\<lambda>c. False)\<rparr>"

text \<open>A backend that always answers, one whose answer is blank, and one that always raises.\<close>

definition purring_backend :: backend where
  "purring_backend w prompt = Inr (Some (lit ''Cats purr.''))"

definition blank_backend :: backend where
  "blank_backend w prompt = Inr (Some (lit '' ''))"

definition failing_backend :: backend where
  "failing_backend w prompt = Inl (OracleError (lit ''connection refused''))"

text \<open>A parser that always raises, with a text that holds a closing tag.\<close>

definition raising_parse :: parser where
  "raising_parse g text = py_raise (GuardError (lit ''unexpected token [/INST]''))"

text \<open>
  A console that prints every string, and one that cannot print a string with the closing
  tag \<^verbatim>\<open>[/INST]\<close>.
\<close>

definition printing_console :: console where
  "printing_console markup = None"

definition strict_console :: console where
  "strict_console markup =
     (if py_in (lit ''[/INST]'') markup
      then Some (MarkupError (lit ''closing tag [/INST] does not match any open tag''))
      else None)"

section \<open>Words of a text\<close>

text \<open>
  The words of a text are its maximal runs of word characters, in order. The second
  argument is the run read so far.
\<close>

fun split_words :: "unicode_tables \<Rightarrow> str \<Rightarrow> str \<Rightarrow> str list" where
  "split_words u cur [] = (if cur = [] then [] else [cur])"
| "split_words u cur (c # cs) =
     (if re_word_char u c then split_words u (cur @ [c]) cs
      else (if cur = [] then split_words u [] cs else cur # split_words u [] cs))"

definition words_of :: "unicode_tables \<Rightarrow> str \<Rightarrow> str list" where
  "words_of u text = split_words u [] text"

text \<open>The stems of the two patterns, and the pattern of a stem.\<close>

definition stems :: "str list" where
  "stems = [lit ''cat'', lit ''kitten'']"

definition whole_word_pattern :: "str \<Rightarrow> re_item list" where
  "whole_word_pattern stem = Boundary # map Literal stem @ [OptionalSet (lit ''s''), Boundary]"

definition ascii_letter :: "nat \<Rightarrow> bool" where
  "ascii_letter c = ((65 \<le> c \<and> c \<le> 90) \<or> (97 \<le> c \<and> c \<le> 122))"

definition word_char_before :: "unicode_tables \<Rightarrow> nat option \<Rightarrow> bool" where
  "word_char_before u prev = (case prev of None \<Rightarrow> False | Some p \<Rightarrow> re_word_char u p)"

text \<open>
  The word is the stem when case is ignored as \<^verbatim>\<open>re.IGNORECASE\<close> does: letter by
  letter, with \<open>ignorecase_eq\<close>.
\<close>

definition ignorecase_word :: "str \<Rightarrow> str \<Rightarrow> bool" where
  "ignorecase_word stem word = list_all2 ignorecase_eq stem word"

text \<open>No banned literal word occurs in the lower-cased text.\<close>

definition no_banned_word :: "unicode_tables \<Rightarrow> str \<Rightarrow> bool" where
  "no_banned_word u text =
     list_all (\<lambda>word. \<not> py_in (py_lower u word) (py_lower u text)) banned_words"

text \<open>
  A stem consists of word characters, so each of its occurrences lies within one word of
  the text. The stems occur only inside larger words when no word is a stem itself, case
  ignored.
\<close>

definition stems_only_inside_larger_words :: "unicode_tables \<Rightarrow> str \<Rightarrow> bool" where
  "stems_only_inside_larger_words u text =
     list_all (\<lambda>word. list_all (\<lambda>stem. \<not> ignorecase_word stem word) stems) (words_of u text)"

text \<open>No word of the text is a stem followed by \<^verbatim>\<open>s\<close>, case ignored.\<close>

definition no_plural_of_stem :: "unicode_tables \<Rightarrow> str \<Rightarrow> bool" where
  "no_plural_of_stem u text =
     list_all (\<lambda>word. list_all (\<lambda>stem. \<not> ignorecase_word (stem @ lit ''s'') word) stems)
       (words_of u text)"

section \<open>Computations\<close>

lemma py_bind_Inr:
  "py_bind m f w = (Inr y, w') \<longleftrightarrow> (\<exists>x w1. m w = (Inr x, w1) \<and> f x w1 = (Inr y, w'))"
  by (auto simp: py_bind_def split: prod.splits sum.splits)

lemma py_return_Inr: "py_return x w = (Inr y, w') \<longleftrightarrow> x = y \<and> w = w'"
  by (auto simp: py_return_def)

section \<open>The guard built from the validator names\<close>

lemma use_validators_auto_map:
  "use_validators_auto g vts
     = g @ map (\<lambda>v. if v = lit ''regex'' then RegexBanList else LLMSafety) vts"
  by (induction vts arbitrary: g) auto

lemma use_validators_manual_map:
  "use_validators_manual g vts
     = g @ map (\<lambda>v. if v = lit ''regex'' then RegexBanList else LLMSafety)
             (filter (\<lambda>v. v = lit ''regex'' \<or> v = lit ''llm'') vts)"
  by (induction vts arbitrary: g) auto

text \<open>
  C6, as stated: a list with a name that is not a recognised kind is rejected. It is not:
  for the names \<^verbatim>\<open>regex, toxicity\<close> the guard of \<^verbatim>\<open>manual_demo.py\<close> is the one for
  \<^verbatim>\<open>regex\<close> alone (the name is ignored), and the guard of \<^verbatim>\<open>auto_demo.py\<close> is the one for
  \<^verbatim>\<open>regex, llm\<close> (the name is replaced by the classifier).
\<close>

theorem create_guard_unknown_name_counterexample:
  "create_guard_manual [lit ''regex'', lit ''toxicity''] = [RegexBanList]
   \<and> create_guard_auto [lit ''regex'', lit ''toxicity''] = [RegexBanList, LLMSafety]"
  by code_simp

text \<open>
  C6, amended: \<^verbatim>\<open>create_guard\<close> rejects no list of names. In \<^verbatim>\<open>auto_demo.py\<close> the name
  \<^verbatim>\<open>regex\<close> adds the pattern screen and every other name adds the classifier; in
  \<^verbatim>\<open>manual_demo.py\<close> the names other than \<^verbatim>\<open>regex\<close> and \<^verbatim>\<open>llm\<close> are skipped.
\<close>

theorem create_guard_never_rejects:
  "create_guard_auto vts = map (\<lambda>v. if v = lit ''regex'' then RegexBanList else LLMSafety) vts
   \<and> create_guard_manual vts
       = map (\<lambda>v. if v = lit ''regex'' then RegexBanList else LLMSafety)
           (filter (\<lambda>v. v = lit ''regex'' \<or> v = lit ''llm'') vts)"
  by (simp add: create_guard_auto_def create_guard_manual_def
        use_validators_auto_map use_validators_manual_map)

theorem create_guard_never_rejects_witness:
  "create_guard_auto [lit ''llm'', lit ''toxicity'', lit ''regex'']
     = [LLMSafety, LLMSafety, RegexBanList]
   \<and> create_guard_manual [lit ''llm'', lit ''toxicity'', lit ''regex'']
     = [LLMSafety, RegexBanList]"
proof -
  have "map (\<lambda>v. if v = lit ''regex'' then RegexBanList else LLMSafety)
          [lit ''llm'', lit ''toxicity'', lit ''regex'']
        = [LLMSafety, LLMSafety, RegexBanList]"
    by code_simp
  moreover have "map (\<lambda>v. if v = lit ''regex'' then RegexBanList else LLMSafety)
                   (filter (\<lambda>v. v = lit ''regex'' \<or> v = lit ''llm'')
                      [lit ''llm'', lit ''toxicity'', lit ''regex''])
                 = [LLMSafety, RegexBanList]"
    by code_simp
  ultimately show ?thesis
    using create_guard_never_rejects [of "[lit ''llm'', lit ''toxicity'', lit ''regex'']"]
    by simp
qed

section \<open>Applying the guard\<close>

text \<open>
  C8: the pipeline built from the empty list of screen kinds returns its input unchanged,
  in both programs, and calls nothing.
\<close>

theorem apply_guard_no_screens_identity:
  "apply_guard_auto (Guard_parse validate) text [] w = (Inr text, w)
   \<and> apply_guard_manual con (Guard_parse validate') text [] w = (Inr text, w)"
  by (simp add: apply_guard_auto_def apply_guard_manual_def create_guard_auto_def
        create_guard_manual_def Guard_parse_def output_or_empty_def
        py_return_def py_bind_def py_try_def)

text \<open>
  In \<^verbatim>\<open>manual_demo.py\<close>, when \<^verbatim>\<open>guard.parse\<close> raises on a non-empty text and the console
  prints the message, \<^verbatim>\<open>apply_guard\<close> returns that text.
\<close>

lemma apply_guard_manual_fail_open:
  assumes "text \<noteq> []"
    and "parse (create_guard_manual validator_types) text w = (Inl e, w1)"
    and "con (guardrails_error_markup e) = None"
  shows "apply_guard_manual con parse text validator_types w = (Inr text, w1)"
  using assms
  by (simp add: apply_guard_manual_def console_print_def py_return_def py_bind_def py_try_def)

text \<open>
  C9, on the code: in \<^verbatim>\<open>manual_demo.py\<close>, when \<^verbatim>\<open>guard.parse\<close> raises on a non-empty
  text and the console cannot print the message of the handler, \<^verbatim>\<open>apply_guard\<close> does not
  return the text: the exception of \<^verbatim>\<open>console.print\<close>, a \<^verbatim>\<open>MarkupError\<close> for a closing
  tag that closes nothing, leaves it.
\<close>

theorem apply_guard_manual_handler_raises:
  assumes "text \<noteq> []"
    and "parse (create_guard_manual validator_types) text w = (Inl e, w1)"
    and "con (guardrails_error_markup e) = Some e'"
  shows "apply_guard_manual con parse text validator_types w = (Inl e', w1)"
  using assms
  by (simp add: apply_guard_manual_def console_print_def py_raise_def py_bind_def py_try_def)

theorem apply_guard_manual_handler_raises_witness:
  "lit ''Hello'' \<noteq> []
   \<and> raising_parse (create_guard_manual [lit ''regex'']) (lit ''Hello'') []
       = (Inl (GuardError (lit ''unexpected token [/INST]'')), [])
   \<and> strict_console (guardrails_error_markup (GuardError (lit ''unexpected token [/INST]'')))
       = Some (MarkupError (lit ''closing tag [/INST] does not match any open tag''))
   \<and> apply_guard_manual strict_console raising_parse (lit ''Hello'') [lit ''regex''] []
       = (Inl (MarkupError (lit ''closing tag [/INST] does not match any open tag'')), [])"
proof -
  have nonempty: "lit ''Hello'' \<noteq> []"
    by (simp add: lit_def)
  have raises: "raising_parse (create_guard_manual [lit ''regex'']) (lit ''Hello'') []
                  = (Inl (GuardError (lit ''unexpected token [/INST]'')), [])"
    by (simp add: raising_parse_def py_raise_def)
  have unprinted:
    "strict_console (guardrails_error_markup (GuardError (lit ''unexpected token [/INST]'')))
       = Some (MarkupError (lit ''closing tag [/INST] does not match any open tag''))"
    by code_simp
  from apply_guard_manual_handler_raises
         [of "lit ''Hello''" raising_parse "[lit ''regex'']" "[]"
            "GuardError (lit ''unexpected token [/INST]'')" "[]" strict_console
            "MarkupError (lit ''closing tag [/INST] does not match any open tag'')",
          OF nonempty raises unprinted]
       nonempty raises unprinted
  show ?thesis by blast
qed

text \<open>
  C10: in \<^verbatim>\<open>manual_demo.py\<close>, \<^verbatim>\<open>apply_guard\<close> on the empty text returns the empty text
  whatever the parser and the validator types are, and leaves the state as it was: no guard
  is parsed with and no screen runs.
\<close>

theorem apply_guard_manual_empty_text:
  "apply_guard_manual con parse [] validator_types w = (Inr [], w)"
  by (simp add: apply_guard_manual_def py_return_def)

section \<open>The flag of the stage before the model\<close>

lemma yes_no_Yes: "(yes_no b = lit ''Yes'') = b"
  by (simp add: yes_no_def lit_def)

lemma run_demo_step_triggered:
  assumes "run_demo_step parse gen prompt guard_before guard_after validator_types w = (Inr x, w')"
  shows "(triggered (d_summary x ! 0) = lit ''Yes'')
           = (guard_before \<and> d_prompt_to_use x \<noteq> prompt)"
    and "d_prompt_filtered x = (guard_before \<and> d_prompt_to_use x \<noteq> prompt)"
  using assms
  by (auto simp add: run_demo_step_def Let_def py_bind_Inr py_return_Inr yes_no_Yes
        split: if_splits)

lemma interactive_turn_triggered:
  assumes "interactive_turn con parse gen prompt validator_types guard_before guard_after mode w
             = (Inr t, w')"
  shows "(triggered (t_summary (pretty_print_turn t) ! 0) = lit ''Yes'')
           = (guard_before \<and> t_prompt_after_guard t \<noteq> prompt)"
  using assms
  by (auto simp add: interactive_turn_def pretty_print_turn_def Let_def py_bind_Inr
        py_return_Inr yes_no_Yes split: if_splits)

text \<open>
  C7: in both programs the cell \<^verbatim>\<open>Triggered\<close> of the row \<^verbatim>\<open>Before LLM\<close> says \<^verbatim>\<open>Yes\<close>
  exactly when the guard before the model is enabled and the prompt after the guard differs
  from the original prompt; the variable \<^verbatim>\<open>prompt_filtered\<close> of \<^verbatim>\<open>run_demo\<close> says the same.
\<close>

theorem prompt_was_filtered_iff:
  "(run_demo_step parse gen prompt guard_before guard_after validator_types w = (Inr x, w1)
      \<longrightarrow> (triggered (d_summary x ! 0) = lit ''Yes'')
            = (guard_before \<and> d_prompt_to_use x \<noteq> prompt)
          \<and> d_prompt_filtered x = (guard_before \<and> d_prompt_to_use x \<noteq> prompt))
   \<and> (interactive_turn con parse' gen' prompt validator_types guard_before guard_after mode w'
         = (Inr t, w2)
      \<longrightarrow> (triggered (t_summary (pretty_print_turn t) ! 0) = lit ''Yes'')
            = (guard_before \<and> t_prompt_after_guard t \<noteq> prompt))"
proof (intro conjI impI)
  assume "run_demo_step parse gen prompt guard_before guard_after validator_types w = (Inr x, w1)"
  then show "(triggered (d_summary x ! 0) = lit ''Yes'')
               = (guard_before \<and> d_prompt_to_use x \<noteq> prompt)"
    and "d_prompt_filtered x = (guard_before \<and> d_prompt_to_use x \<noteq> prompt)"
    by (rule run_demo_step_triggered)+
next
  assume "interactive_turn con parse' gen' prompt validator_types guard_before guard_after mode w'
            = (Inr t, w2)"
  then show "(triggered (t_summary (pretty_print_turn t) ! 0) = lit ''Yes'')
               = (guard_before \<and> t_prompt_after_guard t \<noteq> prompt)"
    by (rule interactive_turn_triggered)
qed

theorem prompt_was_filtered_iff_witness:
  "\<exists>x w1 t w2.
     run_demo_step (Guard_parse (validate_auto plain_tables purring_backend)) purring_backend
       (lit ''I love cats'') True False [lit ''regex''] [] = (Inr x, w1)
     \<and> interactive_turn printing_console
         (Guard_parse (validate_manual plain_tables printing_console purring_backend))
         purring_backend (lit ''I love cats'') [lit ''regex''] True False CallLocalModel []
       = (Inr t, w2)
     \<and> (triggered (d_summary x ! 0) = lit ''Yes'')
         = (True \<and> d_prompt_to_use x \<noteq> lit ''I love cats'')
     \<and> d_prompt_filtered x = (True \<and> d_prompt_to_use x \<noteq> lit ''I love cats'')
     \<and> (triggered (t_summary (pretty_print_turn t) ! 0) = lit ''Yes'')
         = (True \<and> t_prompt_after_guard t \<noteq> lit ''I love cats'')"
proof -
  have "case run_demo_step (Guard_parse (validate_auto plain_tables purring_backend))
               purring_backend (lit ''I love cats'') True False [lit ''regex''] [] of
          (Inr x, w) \<Rightarrow> True | (Inl e, w) \<Rightarrow> False"
    by code_simp
  then obtain x w1 where a:
    "run_demo_step (Guard_parse (validate_auto plain_tables purring_backend)) purring_backend
       (lit ''I love cats'') True False [lit ''regex''] [] = (Inr x, w1)"
    by (auto split: prod.splits sum.splits)
  have "case interactive_turn printing_console
               (Guard_parse (validate_manual plain_tables printing_console purring_backend))
               purring_backend (lit ''I love cats'') [lit ''regex''] True False
               CallLocalModel [] of
          (Inr t, w) \<Rightarrow> True | (Inl e, w) \<Rightarrow> False"
    by code_simp
  then obtain t w2 where b:
    "interactive_turn printing_console
       (Guard_parse (validate_manual plain_tables printing_console purring_backend))
       purring_backend (lit ''I love cats'') [lit ''regex''] True False CallLocalModel []
     = (Inr t, w2)"
    by (auto split: prod.splits sum.splits)
  from prompt_was_filtered_iff
         [where parse = "Guard_parse (validate_auto plain_tables purring_backend)"
            and gen = purring_backend and prompt = "lit ''I love cats''"
            and guard_before = True and guard_after = False
            and validator_types = "[lit ''regex'']" and w = "[]" and x = x and ?w1.0 = w1
            and con = printing_console
            and parse' = "Guard_parse (validate_manual plain_tables printing_console
                                         purring_backend)"
            and gen' = purring_backend and mode = CallLocalModel and w' = "[]"
            and t = t and ?w2.0 = w2]
       a b
  show ?thesis by blast
qed

section \<open>Failures of the backend\<close>

lemma call_local_llm_auto_raises:
  "gen w prompt = Inl e \<Longrightarrow> call_local_llm_auto gen prompt w = (Inl e, w @ [prompt])"
  by (simp add: call_local_llm_auto_def ollama_generate_def py_bind_def)

lemma call_local_llm_manual_result:
  "call_local_llm_manual con gen prompt w
     = ((case gen w prompt of
           Inl e \<Rightarrow> (case con (llm_error_markup e) of
                       None \<Rightarrow> Inr []
                     | Some e' \<Rightarrow> Inl e')
         | Inr r \<Rightarrow> Inr (py_strip (get_response r))),
        w @ [prompt])"
  by (simp add: call_local_llm_manual_def ollama_generate_def console_print_def py_bind_def
        py_try_def py_return_def py_raise_def split: sum.splits option.splits)

text \<open>
  C3, on \<^verbatim>\<open>auto_demo.py\<close>: with a backend that raises, \<^verbatim>\<open>run_demo\<close> on one prompt and
  no guard ends with the exception of the backend; no output is produced.
\<close>

theorem run_demo_backend_failure_propagates:
  "run_demo (Guard_parse (validate_auto plain_tables failing_backend)) failing_backend
     [lit ''Tell me about dogs''] False False [] []
   = (Inl (OracleError (lit ''connection refused'')), [lit ''Tell me about dogs''])"
  by code_simp

text \<open>
  In \<^verbatim>\<open>manual_demo.py\<close> the same failure gives the empty output, the console printing the
  message of the handler.
\<close>

lemma interactive_turn_backend_failure:
  "map_sum id t_baseline_output
     (fst (interactive_turn printing_console
             (Guard_parse (validate_manual plain_tables printing_console failing_backend))
             failing_backend (lit ''Tell me about dogs'') [] False False CallLocalModel []))
   = Inr []"
  by code_simp

section \<open>The classifier and a backend that fails or says nothing\<close>

lemma in_set_dropWhile: "c \<in> set s \<Longrightarrow> \<not> P c \<Longrightarrow> c \<in> set (dropWhile P s)"
  by (induction s) auto

lemma py_strip_keeps: "c \<in> set s \<Longrightarrow> \<not> py_isspace c \<Longrightarrow> c \<in> set (py_strip s)"
  by (simp add: py_strip_def in_set_dropWhile)

lemma py_strip_nonempty:
  assumes "py_strip s \<noteq> []"
  shows "\<exists>c\<in>set (py_strip s). \<not> py_isspace c"
proof -
  define t where "t = dropWhile py_isspace (rev (dropWhile py_isspace s))"
  from assms have "t \<noteq> []"
    by (simp add: py_strip_def t_def)
  then have "\<not> py_isspace (hd t)" and "hd t \<in> set t"
    unfolding t_def by (simp_all add: hd_dropWhile)
  then show ?thesis
    by (auto simp: py_strip_def t_def)
qed

lemma split_ws_nonempty:
  "cur \<noteq> [] \<or> (\<exists>c\<in>set s. \<not> py_isspace c) \<Longrightarrow> split_ws cur s \<noteq> []"
  by (induction s arbitrary: cur) auto

lemma first_word_upper_of_stripped:
  assumes "py_strip s \<noteq> []"
  shows "\<exists>label. first_word_upper u (py_strip s) w = (Inr label, w)"
proof -
  from py_strip_nonempty [OF assms] obtain c where "c \<in> set (py_strip s)" "\<not> py_isspace c"
    by blast
  then have "c \<in> set (py_strip (py_strip s))"
    by (rule py_strip_keeps)
  then have "py_split (py_strip (py_strip s)) \<noteq> []"
    using \<open>\<not> py_isspace c\<close> unfolding py_split_def by (intro split_ws_nonempty) blast
  then show ?thesis
    by (auto simp: first_word_upper_def py_return_def split: list.splits)
qed

text \<open>
  C2, on \<^verbatim>\<open>auto_demo.py\<close>: with a backend whose reply is blank the classifier raises
  \<^verbatim>\<open>IndexError\<close>, and with a backend that raises it raises the exception of the backend;
  in neither case is there a verdict.
\<close>

theorem auto_classifier_raises:
  "validate_auto plain_tables blank_backend LLMSafety (lit ''I love dogs'') []
     = (Inl IndexError, [classifier_prompt (lit ''I love dogs'')])
   \<and> validate_auto plain_tables failing_backend LLMSafety (lit ''I love dogs'') []
     = (Inl (OracleError (lit ''connection refused'')), [classifier_prompt (lit ''I love dogs'')])"
  by code_simp

text \<open>
  The classifier of \<^verbatim>\<open>manual_demo.py\<close> does not raise when the console prints the message
  of the handler of \<^verbatim>\<open>call_local_llm\<close>, and its verdict is then a failure when the backend
  raises; it is a failure too when the reply is empty or blank.
\<close>

lemma LLMSafety_classify_manual_never_raises:
  assumes "\<And>e. gen w (classifier_prompt text) = Inl e \<Longrightarrow> con (llm_error_markup e) = None"
  shows "\<exists>is_safe. LLMSafety_classify_manual u con gen text w
                     = (Inr is_safe, w @ [classifier_prompt text])"
proof -
  let ?w = "w @ [classifier_prompt text]"
  let ?label_raw = "case gen w (classifier_prompt text) of
                      Inl e \<Rightarrow> [] | Inr r \<Rightarrow> py_strip (get_response r)"
  have call: "call_local_llm_manual con gen (classifier_prompt text) w = (Inr ?label_raw, ?w)"
    using assms by (auto simp: call_local_llm_manual_result split: sum.splits)
  have label: "\<exists>label. (if s \<noteq> [] then first_word_upper u s else py_return []) ?w
                        = (Inr label, ?w)"
    if "s = [] \<or> (\<exists>r. s = py_strip r)" for s
    using that first_word_upper_of_stripped by (auto simp: py_return_def)
  have "?label_raw = [] \<or> (\<exists>r. ?label_raw = py_strip r)"
    by (auto split: sum.splits)
  from label [OF this] obtain label where
    "(if ?label_raw \<noteq> [] then first_word_upper u ?label_raw else py_return []) ?w
       = (Inr label, ?w)"
    by blast
  with call show ?thesis
    by (simp add: LLMSafety_classify_manual_def py_bind_def py_return_def)
qed

lemma validate_manual_never_raises:
  assumes "\<And>e. gen w (classifier_prompt text) = Inl e \<Longrightarrow> con (llm_error_markup e) = None"
  shows "\<exists>r. validate_manual u con gen v text w
               = (Inr r, if v = LLMSafety then w @ [classifier_prompt text] else w)"
proof (cases v)
  case RegexBanList
  then show ?thesis by (simp add: validate_manual_def py_return_def)
next
  case LLMSafety
  obtain is_safe where
    "LLMSafety_classify_manual u con gen text w = (Inr is_safe, w @ [classifier_prompt text])"
    using LLMSafety_classify_manual_never_raises [of gen w "text" con u] assms by blast
  with LLMSafety show ?thesis
    by (simp add: validate_manual_def LLMSafety_validate_def py_bind_def py_return_def)
qed

lemma manual_classifier_fails_closed:
  assumes "(\<exists>e. gen w (classifier_prompt text) = Inl e \<and> con (llm_error_markup e) = None)
           \<or> (\<exists>r. gen w (classifier_prompt text) = Inr r \<and> py_strip (get_response r) = [])"
  shows "validate_manual u con gen LLMSafety text w
           = (Inr (FailResult (lit ''LLM classified content as UNSAFE.'')),
              w @ [classifier_prompt text])"
proof -
  have "[] \<noteq> lit ''SAFE''"
    by (simp add: lit_def)
  with assms show ?thesis
    by (auto simp add: validate_manual_def LLMSafety_validate_def LLMSafety_classify_manual_def
          call_local_llm_manual_result py_bind_def py_return_def)
qed

section \<open>A prompt that the guard filters\<close>

text \<open>
  C1, on \<^verbatim>\<open>auto_demo.py\<close>: the pattern screen filters the prompt \<^verbatim>\<open>I love cats\<close>, the
  prompt after the guard is empty, and the backend is called all the same, with the empty
  prompt; the baseline output is its reply.
\<close>

theorem run_demo_generates_for_filtered_prompt:
  "map_sum id (\<lambda>x. (d_prompt_to_use x, d_baseline_output x))
     (fst (run_demo_step (Guard_parse (validate_auto plain_tables purring_backend))
             purring_backend (lit ''I love cats'') True False [lit ''regex''] []))
   = Inr ([], lit ''Cats purr.'')
   \<and> snd (run_demo_step (Guard_parse (validate_auto plain_tables purring_backend))
            purring_backend (lit ''I love cats'') True False [lit ''regex''] [])
     = [[]]"
  by code_simp

text \<open>
  In \<^verbatim>\<open>manual_demo.py\<close> an empty prompt after the guard ends the turn: the backend is not
  called for the output, whatever the response mode, and the outputs shown are empty.
\<close>

lemma interactive_turn_filtered_prompt:
  assumes "apply_guard_manual con parse user_prompt validator_types w = (Inr [], w1)"
  shows "interactive_turn con parse gen user_prompt validator_types True guard_after mode w
           = (Inr \<lparr>t_original_prompt = user_prompt, t_prompt_after_guard = [],
                   t_baseline_output = [], t_output_after_guard = [],
                   t_guard_before = True, t_guard_after = False,
                   t_validator_types = validator_types\<rparr>, w1)"
  using assms by (simp add: interactive_turn_def py_bind_def py_return_def)

section \<open>The pattern screen: banned words\<close>

lemma py_in_sublist: "py_in w s \<longleftrightarrow> sublist w s"
  by (induction s) (simp_all add: sublist_Cons_right)

lemma check_banned_words_hit:
  "word \<in> set ws \<Longrightarrow> py_in (py_lower u word) lowered \<Longrightarrow>
   \<exists>w\<in>set ws. py_in (py_lower u w) lowered
      \<and> check_banned_words u ws lowered = Some (FailResult (banned_word_message w))"
  by (induction ws) auto

text \<open>
  C4: when a banned literal word occurs in the text, compared without case, the pattern
  screen fails, and the reason it gives is \<^verbatim>\<open>Text contains banned word: 'w'\<close> for a banned
  word \<open>w\<close> that occurs in the text; the word is part of the reason.
\<close>

theorem RegexBanList_banned_word_fails:
  assumes "word \<in> set banned_words"
    and "py_in (py_lower u word) (py_lower u text)"
  shows "\<exists>w\<in>set banned_words. py_in (py_lower u w) (py_lower u text)
           \<and> RegexBanList_validate u text
               = FailResult (lit ''Text contains banned word: '' @ lit [CHR 0x27] @ w
                             @ lit [CHR 0x27])
           \<and> (\<exists>reason. RegexBanList_validate u text = FailResult reason \<and> py_in w reason)"
proof -
  from check_banned_words_hit [OF assms]
  obtain w where w: "w \<in> set banned_words" "py_in (py_lower u w) (py_lower u text)"
    "check_banned_words u banned_words (py_lower u text)
       = Some (FailResult (banned_word_message w))"
    by blast
  then have result: "RegexBanList_validate u text
      = FailResult (lit ''Text contains banned word: '' @ lit [CHR 0x27] @ w @ lit [CHR 0x27])"
    by (simp add: RegexBanList_validate_def banned_word_message_def)
  have "sublist w (lit ''Text contains banned word: '' @ lit [CHR 0x27] @ w @ lit [CHR 0x27])"
    by (metis append.assoc sublist_appendI)
  then have "py_in w (lit ''Text contains banned word: '' @ lit [CHR 0x27] @ w
                      @ lit [CHR 0x27])"
    by (simp add: py_in_sublist)
  with w result show ?thesis
    by blast
qed

theorem RegexBanList_banned_word_fails_witness:
  "lit ''meow'' \<in> set banned_words
   \<and> py_in (py_lower plain_tables (lit ''meow'')) (py_lower plain_tables (lit ''Hello MeOw''))
   \<and> (\<exists>w\<in>set banned_words.
         py_in (py_lower plain_tables w) (py_lower plain_tables (lit ''Hello MeOw''))
         \<and> RegexBanList_validate plain_tables (lit ''Hello MeOw'')
             = FailResult (lit ''Text contains banned word: '' @ lit [CHR 0x27] @ w
                           @ lit [CHR 0x27])
         \<and> (\<exists>reason. RegexBanList_validate plain_tables (lit ''Hello MeOw'')
                         = FailResult reason \<and> py_in w reason))"
proof -
  have listed: "lit ''meow'' \<in> set banned_words"
    by (simp add: banned_words_def)
  have occurs: "py_in (py_lower plain_tables (lit ''meow''))
                  (py_lower plain_tables (lit ''Hello MeOw''))"
    by code_simp
  from RegexBanList_banned_word_fails [OF listed occurs] listed occurs
  show ?thesis by blast
qed

section \<open>The pattern screen: whole words\<close>

lemma ignorecase_word_char:
  assumes "ignorecase_eq p c" and "ascii_letter p"
  shows "re_word_char u c"
proof -
  from assms(2) have lo: "97 \<le> ascii_lower_of p \<and> ascii_lower_of p \<le> 122"
    by (auto simp: ascii_letter_def ascii_lower_of_def)
  from assms(1) consider
      (ascii) "c < 128" "ascii_lower_of c = ascii_lower_of p"
    | (other) "c = 304 \<or> c = 305 \<or> c = 383 \<or> c = 8490"
    by (auto simp: ignorecase_eq_def Let_def)
  then show ?thesis
  proof cases
    case ascii
    with lo have "(65 \<le> c \<and> c \<le> 90) \<or> (97 \<le> c \<and> c \<le> 122)"
      by (auto simp: ascii_lower_of_def split: if_splits)
    moreover from ascii have "c < 256"
      by simp
    ultimately show ?thesis
      unfolding re_word_char_def by auto
  next
    case other
    then show ?thesis
      unfolding re_word_char_def by auto
  qed
qed

lemma ignorecase_word_chars:
  "ignorecase_word w m \<Longrightarrow> list_all ascii_letter w \<Longrightarrow> list_all (re_word_char u) m"
  unfolding ignorecase_word_def
  by (induction w m rule: list_all2_induct) (auto intro: ignorecase_word_char)

lemma literals_match:
  assumes "match_here u (map Literal stem @ items) prev rest"
  shows "\<exists>m post. rest = m @ post \<and> ignorecase_word stem m
           \<and> match_here u items (if stem = [] then prev else Some (last m)) post"
  using assms
proof (induction stem arbitrary: prev rest)
  case Nil
  then show ?case
    by (auto simp: ignorecase_word_def)
next
  case (Cons p stem)
  from Cons.prems obtain c cs where rest: "rest = c # cs"
    and eq: "ignorecase_eq p c"
    and tail: "match_here u (map Literal stem @ items) (Some c) cs"
    by (cases rest) auto
  from Cons.IH [OF tail] obtain m post where cs: "cs = m @ post"
    and m: "ignorecase_word stem m"
    and items: "match_here u items (if stem = [] then Some c else Some (last m)) post"
    by blast
  from m have empty: "(m = []) = (stem = [])"
    by (auto simp: ignorecase_word_def)
  have "rest = (c # m) @ post"
    using rest cs by simp
  moreover have "ignorecase_word (p # stem) (c # m)"
    using eq m by (simp add: ignorecase_word_def)
  moreover have "match_here u items (Some (last (c # m))) post"
    using items empty by (cases "stem = []") auto
  ultimately show ?case
    by (intro exI [of _ "c # m"] exI [of _ post]) simp
qed

lemma optional_s_boundary:
  assumes "re_word_char u l"
    and "match_here u [OptionalSet (lit ''s''), Boundary] (Some l) post"
  shows "(post = [] \<or> \<not> re_word_char u (hd post))
         \<or> (\<exists>c post'. post = c # post' \<and> ignorecase_word (lit ''s'') [c]
               \<and> (post' = [] \<or> \<not> re_word_char u (hd post')))"
proof (cases post)
  case Nil
  then show ?thesis by simp
next
  case (Cons c post')
  have s: "lit ''s'' = [115]" "ascii_letter 115"
    by (simp_all add: lit_def code_point_def ascii_letter_def)
  from assms Cons consider
      (with_s) "ignorecase_eq 115 c" "at_boundary u (Some c) post'"
    | (without_s) "at_boundary u (Some l) (c # post')"
    by (auto simp: s)
  then show ?thesis
  proof cases
    case with_s
    then have "re_word_char u c"
      using s(2) by (intro ignorecase_word_char)
    with with_s(2) have "post' = [] \<or> \<not> re_word_char u (hd post')"
      by (cases post') (auto simp: at_boundary_def)
    with with_s(1) Cons show ?thesis
      by (auto simp: ignorecase_word_def s)
  next
    case without_s
    with assms(1) have "\<not> re_word_char u c"
      by (simp add: at_boundary_def)
    with Cons show ?thesis by simp
  qed
qed

lemma whole_word_match:
  assumes "match_here u (whole_word_pattern stem) prev rest"
    and "stem \<noteq> []" and "list_all ascii_letter stem"
  shows "\<not> word_char_before u prev
         \<and> (\<exists>m post. rest = m @ post
               \<and> (ignorecase_word stem m \<or> ignorecase_word (stem @ lit ''s'') m)
               \<and> (post = [] \<or> \<not> re_word_char u (hd post)))"
proof -
  from assms(1) have boundary: "at_boundary u prev rest"
    and literals:
      "match_here u (map Literal stem @ [OptionalSet (lit ''s''), Boundary]) prev rest"
    by (simp_all add: whole_word_pattern_def)
  from literals_match [OF literals] assms(2)
  obtain m post where rest: "rest = m @ post" and m: "ignorecase_word stem m"
    and tail: "match_here u [OptionalSet (lit ''s''), Boundary] (Some (last m)) post"
    by auto
  from m assms(2) have nonempty: "m \<noteq> []"
    by (auto simp: ignorecase_word_def)
  from m assms(3) have word: "list_all (re_word_char u) m"
    by (rule ignorecase_word_chars)
  with nonempty have first: "re_word_char u (hd m)" and last: "re_word_char u (last m)"
    by (auto simp: list_all_iff)
  from boundary rest nonempty first have before: "\<not> word_char_before u prev"
    by (cases m) (auto simp: at_boundary_def word_char_before_def)
  from optional_s_boundary [OF last tail]
  consider (cat) "post = [] \<or> \<not> re_word_char u (hd post)"
    | (cats) c post' where "post = c # post'" "ignorecase_word (lit ''s'') [c]"
        "post' = [] \<or> \<not> re_word_char u (hd post')"
    by blast
  then show ?thesis
  proof cases
    case cat
    with rest m before show ?thesis by blast
  next
    case cats
    have "rest = (m @ [c]) @ post'"
      using rest cats(1) by simp
    moreover have "ignorecase_word (stem @ lit ''s'') (m @ [c])"
      using m cats(2) unfolding ignorecase_word_def by (rule list_all2_appendI)
    ultimately show ?thesis
      using before cats(3) by blast
  qed
qed

lemma split_words_word:
  assumes "list_all (re_word_char u) m"
    and "post = [] \<or> \<not> re_word_char u (hd post)"
    and "cur @ m \<noteq> []"
  shows "cur @ m \<in> set (split_words u cur (m @ post))"
  using assms
proof (induction m arbitrary: cur)
  case Nil
  then show ?case by (cases post) auto
next
  case (Cons x m)
  from Cons.prems have "(cur @ [x]) @ m \<in> set (split_words u (cur @ [x]) (m @ post))"
    by (intro Cons.IH) auto
  with Cons.prems show ?case by simp
qed

lemma split_words_step:
  "set (split_words u (if re_word_char u x then cur @ [x] else []) xs)
     \<subseteq> set (split_words u cur (x # xs))"
  by auto

lemma search_finds_word:
  assumes "search_from u (whole_word_pattern stem) prev rest"
    and "stem \<noteq> []" and "list_all ascii_letter stem"
    and "word_char_before u prev = (cur \<noteq> [])"
  shows "\<exists>w\<in>set (split_words u cur rest).
           ignorecase_word stem w \<or> ignorecase_word (stem @ lit ''s'') w"
  using assms(1,4)
proof (induction rest arbitrary: prev cur)
  case Nil
  then have "match_here u (whole_word_pattern stem) prev []"
    by simp
  from whole_word_match [OF this assms(2,3)] assms(2) show ?case
    by (auto simp: ignorecase_word_def)
next
  case (Cons x xs)
  from Cons.prems(1) consider
      (here) "match_here u (whole_word_pattern stem) prev (x # xs)"
    | (later) "search_from u (whole_word_pattern stem) (Some x) xs"
    by auto
  then show ?case
  proof cases
    case here
    from whole_word_match [OF here assms(2,3)]
    obtain m post where before: "\<not> word_char_before u prev" and rest: "x # xs = m @ post"
      and m: "ignorecase_word stem m \<or> ignorecase_word (stem @ lit ''s'') m"
      and post: "post = [] \<or> \<not> re_word_char u (hd post)"
      by blast
    have "list_all ascii_letter (stem @ lit ''s'')"
      using assms(3) by (simp add: ascii_letter_def lit_def code_point_def)
    with m assms(3) have word: "list_all (re_word_char u) m"
      by (auto intro: ignorecase_word_chars)
    from m assms(2) have "m \<noteq> []"
      by (auto simp: ignorecase_word_def)
    moreover from before Cons.prems(2) have "cur = []"
      by simp
    ultimately have "m \<in> set (split_words u cur (m @ post))"
      using split_words_word [OF word post, of cur] by simp
    with rest m show ?thesis
      by (metis (no_types))
  next
    case later
    have "word_char_before u (Some x)
            = ((if re_word_char u x then cur @ [x] else []) \<noteq> [])"
      by (simp add: word_char_before_def)
    from Cons.IH [OF later this] split_words_step [of u x cur xs] show ?thesis
      by blast
  qed
qed

lemma re_search_finds_word:
  assumes "re_search u (whole_word_pattern stem) text"
    and "stem \<noteq> []" and "list_all ascii_letter stem"
  shows "\<exists>w\<in>set (words_of u text).
           ignorecase_word stem w \<or> ignorecase_word (stem @ lit ''s'') w"
  using search_finds_word [of u stem None "text" "[]"] assms
  by (simp add: re_search_def words_of_def word_char_before_def)

lemma compiled_patterns_stems: "compiled_patterns = map whole_word_pattern stems"
  by (simp add: compiled_patterns_def stems_def whole_word_pattern_def lit_def)

lemma check_patterns_none:
  "(\<And>stem. stem \<in> set ss \<Longrightarrow> \<not> re_search u (whole_word_pattern stem) text)
   \<Longrightarrow> check_patterns u (map whole_word_pattern ss) text = None"
  by (induction ss) auto

lemma check_banned_words_none:
  "list_all (\<lambda>word. \<not> py_in (py_lower u word) lowered) ws
   \<Longrightarrow> check_banned_words u ws lowered = None"
  by (induction ws) auto

text \<open>
  C5, as stated: when the stems occur only inside larger words and no banned word occurs,
  the pattern screen passes. It does not on \<^verbatim>\<open>I love cats\<close>: the stem \<^verbatim>\<open>cat\<close> occurs
  only inside the larger word \<^verbatim>\<open>cats\<close>, which the pattern with its optional \<^verbatim>\<open>s\<close>
  matches as a whole word.
\<close>

theorem stem_inside_plural_counterexample:
  "no_banned_word plain_tables (lit ''I love cats'')
   \<and> stems_only_inside_larger_words plain_tables (lit ''I love cats'')
   \<and> RegexBanList_validate plain_tables (lit ''I love cats'')
       = FailResult (lit ''Text matched banned regex pattern.'')"
  by code_simp

text \<open>
  C5, amended: when no banned word occurs in the lower-cased text, the stems occur only
  inside larger words, and none of these words is a stem followed by \<^verbatim>\<open>s\<close>
  (\<^verbatim>\<open>cats\<close>, \<^verbatim>\<open>kittens\<close>), the pattern screen passes. A word is compared with a stem
  as \<^verbatim>\<open>re.IGNORECASE\<close> compares them, so that also U+0130 and U+0131 count as \<^verbatim>\<open>i\<close>,
  U+017F as \<^verbatim>\<open>s\<close> and U+212A as \<^verbatim>\<open>k\<close>. The text is any sequence of code points, and
  the tables of the code points from U+0100 on are arbitrary.
\<close>

theorem RegexBanList_passes_inside_larger_words:
  assumes "no_banned_word u text"
    and "stems_only_inside_larger_words u text"
    and "no_plural_of_stem u text"
  shows "RegexBanList_validate u text = PassResult"
proof -
  have "\<not> re_search u (whole_word_pattern stem) text" if "stem \<in> set stems" for stem
  proof
    assume found: "re_search u (whole_word_pattern stem) text"
    from that have "stem \<noteq> []" and "list_all ascii_letter stem"
      by (auto simp: stems_def ascii_letter_def lit_def code_point_def)
    from re_search_finds_word [OF found this]
    obtain w where "w \<in> set (words_of u text)"
      "ignorecase_word stem w \<or> ignorecase_word (stem @ lit ''s'') w"
      by blast
    with assms(2,3) that show False
      by (auto simp: stems_only_inside_larger_words_def no_plural_of_stem_def list_all_iff)
  qed
  then have "check_patterns u compiled_patterns text = None"
    unfolding compiled_patterns_stems by (rule check_patterns_none)
  moreover from assms(1) have "check_banned_words u banned_words (py_lower u text) = None"
    unfolding no_banned_word_def by (rule check_banned_words_none)
  ultimately show ?thesis
    by (simp add: RegexBanList_validate_def)
qed

theorem RegexBanList_passes_inside_larger_words_witness:
  "no_banned_word plain_tables (lit ''Concatenate the categories'')
   \<and> stems_only_inside_larger_words plain_tables (lit ''Concatenate the categories'')
   \<and> no_plural_of_stem plain_tables (lit ''Concatenate the categories'')
   \<and> RegexBanList_validate plain_tables (lit ''Concatenate the categories'') = PassResult"
proof -
  have banned: "no_banned_word plain_tables (lit ''Concatenate the categories'')"
    by code_simp
  have inside: "stems_only_inside_larger_words plain_tables (lit ''Concatenate the categories'')"
    by code_simp
  have plural: "no_plural_of_stem plain_tables (lit ''Concatenate the categories'')"
    by code_simp
  from RegexBanList_passes_inside_larger_words [OF banned inside plural] banned inside plural
  show ?thesis by blast
qed

text \<open>
  The patterns match \<^verbatim>\<open>k\<close>U+0131\<^verbatim>\<open>tten\<close>, \<^verbatim>\<open>K\<close>U+0130\<^verbatim>\<open>TTEN\<close> and \<^verbatim>\<open>cat\<close>U+017F,
  whatever the tables are; these words are a stem, or a stem followed by \<^verbatim>\<open>s\<close>, when
  case is ignored as \<^verbatim>\<open>re.IGNORECASE\<close> does.
\<close>

lemma ignorecase_matches_beyond_ascii:
  "re_search u (whole_word_pattern (lit ''kitten'')) (lit ''k'' @ [305] @ lit ''tten'')
   \<and> re_search u (whole_word_pattern (lit ''kitten'')) (lit ''K'' @ [304] @ lit ''TTEN'')
   \<and> re_search u (whole_word_pattern (lit ''cat'')) (lit ''cat'' @ [383])
   \<and> ignorecase_word (lit ''kitten'') (lit ''k'' @ [305] @ lit ''tten'')
   \<and> ignorecase_word (lit ''kitten'') (lit ''K'' @ [304] @ lit ''TTEN'')
   \<and> ignorecase_word (lit ''cat'' @ lit ''s'') (lit ''cat'' @ [383])"
  by (simp add: re_search_def whole_word_pattern_def lit_def code_point_def at_boundary_def
        ignorecase_eq_def ignorecase_word_def re_word_char_def ascii_lower_of_def)

end
